theory Spec2Isabelle
  imports Complex_Main
begin

section \<open>Sutherland's equation viscosity calculator\<close>

text \<open>
  A shallow embedding of \<^verbatim>\<open>Sutherlandsequation.py\<close>. Python's \<^verbatim>\<open>float\<close> is read as
  \<^typ>\<open>real\<close>: every arithmetic operation is the exact one, so rounding, overflow and signed
  zeros are outside this development. What the interpreter does beyond arithmetic is kept:
  an exception is a value of \<open>error + 'a\<close>, and a \<^verbatim>\<open>float\<close> power with a negative base and a
  fractional exponent is a \<^verbatim>\<open>complex\<close>, as in Python 3.
\<close>

subsection \<open>Exceptions and numbers\<close>

datatype error = ValueError string | ZeroDivisionError

datatype pynum = PyFloat real | PyComplex complex

subsection \<open>Constants\<close>

definition T_REF_SI :: real where "T_REF_SI = 323.0"
definition S_SI :: real where "S_SI = 110.0"
definition V_REF_SI :: real where "V_REF_SI = 1.716 / 10 ^ 5"

definition T_REF_USC :: real where "T_REF_USC = 518.67"
definition S_USC :: real where "S_USC = 198.72"
definition V_REF_USC :: real where "V_REF_USC = 3.737 / 10 ^ 7"

subsection \<open>Temperature conversion\<close>

definition to_kelvin :: "real \<Rightarrow> string \<Rightarrow> error + real" where
  "to_kelvin val unit =
     (if unit = ''C'' then Inr (val + 273.15)
      else if unit = ''F'' then Inr ((val - 32) * 5 / 9 + 273.15)
      else if unit = ''K'' then Inr val
      else if unit = ''R'' then Inr (val * 5 / 9)
      else Inl (ValueError (''Unsupported unit: '' @ unit)))"

definition to_rankine :: "real \<Rightarrow> string \<Rightarrow> error + real" where
  "to_rankine val unit =
     (if unit = ''C'' then Inr ((val * 9 / 5) + 491.67)
      else if unit = ''F'' then Inr (val + 459.67)
      else if unit = ''K'' then Inr (val * 9 / 5)
      else if unit = ''R'' then Inr val
      else Inl (ValueError (''Unsupported unit: '' @ unit)))"

subsection \<open>Float operators\<close>

text \<open>
  \<^verbatim>\<open>a / b\<close> on floats raises \<^verbatim>\<open>ZeroDivisionError\<close> when \<^verbatim>\<open>b\<close> is zero.
\<close>

definition float_div :: "real \<Rightarrow> real \<Rightarrow> error + real" where
  "float_div a b = (if b = 0 then Inl ZeroDivisionError else Inr (a / b))"

text \<open>
  \<^verbatim>\<open>x ** 1.5\<close> on a float: zero stays zero, a positive base gives the real power, and a
  negative base is handed to the complex power, which works in polar form with modulus
  \<open>\<bar>x\<bar> ** 1.5\<close> and phase \<open>1.5 * atan2(0, x) = 1.5 * pi\<close>.
\<close>

definition float_pow_1_5 :: "real \<Rightarrow> pynum" where
  "float_pow_1_5 x =
     (if x = 0 then PyFloat 0
      else if x < 0 then PyComplex (rcis (\<bar>x\<bar> powr 1.5) (pi * 1.5))
      else PyFloat (x powr 1.5))"

text \<open>
  Multiplying by a float keeps a float a float and a complex a complex; dividing by a float
  raises \<^verbatim>\<open>ZeroDivisionError\<close> on zero for both.
\<close>

fun float_mul :: "real \<Rightarrow> pynum \<Rightarrow> pynum" where
  "float_mul a (PyFloat b) = PyFloat (a * b)"
| "float_mul a (PyComplex c) = PyComplex (of_real a * c)"

fun mul_float :: "pynum \<Rightarrow> real \<Rightarrow> pynum" where
  "mul_float (PyFloat a) b = PyFloat (a * b)"
| "mul_float (PyComplex c) b = PyComplex (c * of_real b)"

fun div_float :: "pynum \<Rightarrow> real \<Rightarrow> error + pynum" where
  "div_float (PyFloat a) b = (if b = 0 then Inl ZeroDivisionError else Inr (PyFloat (a / b)))"
| "div_float (PyComplex c) b =
     (if b = 0 then Inl ZeroDivisionError else Inr (PyComplex (c / of_real b)))"

subsection \<open>Sutherland's formula\<close>

text \<open>
  \<^verbatim>\<open>v_ref * (temp / t_ref) ** 1.5 * (t_ref + s) / (temp + s)\<close>, evaluated left to right:
  the quotient \<^verbatim>\<open>temp / t_ref\<close> first, the division by \<^verbatim>\<open>temp + s\<close> last.
\<close>

definition sutherland_viscosity :: "real \<Rightarrow> real \<Rightarrow> real \<Rightarrow> real \<Rightarrow> error + pynum" where
  "sutherland_viscosity temp t_ref s v_ref =
     (case float_div temp t_ref of
        Inl e \<Rightarrow> Inl e
      | Inr q \<Rightarrow> div_float (mul_float (float_mul v_ref (float_pow_1_5 q)) (t_ref + s)) (temp + s))"

text \<open>
  The same expression on a NumPy \<^verbatim>\<open>float64\<close> scalar, which is what iterating over the array
  of sampled temperatures yields. NumPy arithmetic does not raise and does not switch to
  complex numbers: a division by zero gives an infinity or a NaN, a negative base under the
  fractional power gives a NaN, and both propagate through the remaining operations.
  \<open>None\<close> stands for such a non-finite result.
\<close>

definition np_sutherland_viscosity :: "real \<Rightarrow> real \<Rightarrow> real \<Rightarrow> real \<Rightarrow> real option" where
  "np_sutherland_viscosity temp t_ref s v_ref =
     (if t_ref = 0 \<or> temp / t_ref < 0 \<or> temp + s = 0 then None
      else Some (v_ref * (temp / t_ref) powr 1.5 * (t_ref + s) / (temp + s)))"

subsection \<open>Sampling\<close>

text \<open>
  \<^verbatim>\<open>np.linspace(start, stop, num)\<close> with its default \<^verbatim>\<open>endpoint=True\<close>, following the library
  routine: the indices \<open>0, \<dots>, num - 1\<close> are scaled by the step \<open>(stop - start) / (num - 1)\<close>
  (by \<open>i / (num - 1) * (stop - start)\<close> when the step is zero, by \<open>stop - start\<close> when there
  is at most one sample), shifted by \<open>start\<close>, and the last sample is overwritten with
  \<open>stop\<close> when there are at least two.
\<close>

definition linspace :: "real \<Rightarrow> real \<Rightarrow> nat \<Rightarrow> real list" where
  "linspace start stop num =
     (let dv = int num - 1;
          delta = stop - start;
          y0 = map real [0..<num];
          y1 = (if dv > 0 then
                  (let step = delta / real_of_int dv
                   in if step = 0 then map (\<lambda>v. v / real_of_int dv * delta) y0
                      else map (\<lambda>v. v * step) y0)
                else map (\<lambda>v. v * delta) y0);
          y2 = map (\<lambda>v. v + start) y1
      in if num > 1 then y2[num - 1 := stop] else y2)"

subsection \<open>One calculation\<close>

text \<open>
  What one press of the Calculate button computes: the converted temperature \<open>T\<close>, the
  sea-level reference \<open>base_temp\<close>, the viscosity at \<open>T\<close>, the unit label, the constants in
  use, and the sampled curve \<open>temps\<close>, \<open>mu\<close>. An exception raised on the way aborts the
  calculation.
\<close>

record calculation =
  T :: real
  base_temp :: real
  viscosity :: pynum
  unit_label :: string
  ref :: "real \<times> real \<times> real"
  temps :: "real list"
  mu :: "real option list"

definition plot_data :: "real \<Rightarrow> real \<Rightarrow> pynum \<Rightarrow> string \<Rightarrow> real \<times> real \<times> real \<Rightarrow> calculation" where
  "plot_data t b v label r =
     (let ts = linspace b t 100
      in \<lparr>T = t, base_temp = b, viscosity = v, unit_label = label, ref = r, temps = ts,
          mu = map (\<lambda>x. np_sutherland_viscosity x (fst r) (fst (snd r)) (snd (snd r))) ts\<rparr>)"

definition calculate :: "string \<Rightarrow> string \<Rightarrow> real \<Rightarrow> error + calculation" where
  "calculate unit_system temp_unit temp_input =
     (if unit_system = ''SI'' then
        (case to_kelvin temp_input temp_unit of
           Inl e \<Rightarrow> Inl e
         | Inr t \<Rightarrow>
            (case to_kelvin 15.0 ''C'' of
               Inl e \<Rightarrow> Inl e
             | Inr b \<Rightarrow>
                (case sutherland_viscosity t T_REF_SI S_SI V_REF_SI of
                   Inl e \<Rightarrow> Inl e
                 | Inr v \<Rightarrow> Inr (plot_data t b v ''K'' (T_REF_SI, S_SI, V_REF_SI)))))
      else
        (case to_rankine temp_input temp_unit of
           Inl e \<Rightarrow> Inl e
         | Inr t \<Rightarrow>
            (case to_rankine 15.0 ''C'' of
               Inl e \<Rightarrow> Inl e
             | Inr b \<Rightarrow>
                (case sutherland_viscosity t T_REF_USC S_USC V_REF_USC of
                   Inl e \<Rightarrow> Inl e
                 | Inr v \<Rightarrow> Inr (plot_data t b v ''R'' (T_REF_USC, S_USC, V_REF_USC))))))"

subsection \<open>Auxiliary facts\<close>

lemma float_pow_1_5_nonneg: "0 \<le> q \<Longrightarrow> float_pow_1_5 q = PyFloat (q powr 1.5)"
  by (simp add: float_pow_1_5_def)

lemma viscosity_real:
  assumes "t_ref \<noteq> 0" "temp + s \<noteq> 0" "0 \<le> temp / t_ref"
  shows "sutherland_viscosity temp t_ref s v_ref =
     Inr (PyFloat (v_ref * (temp / t_ref) powr 1.5 * (t_ref + s) / (temp + s)))"
  using assms by (simp add: sutherland_viscosity_def float_div_def float_pow_1_5_nonneg)

lemma viscosity_zero_t_ref: "sutherland_viscosity temp 0 s v_ref = Inl ZeroDivisionError"
  by (simp add: sutherland_viscosity_def float_div_def)

lemma viscosity_self:
  assumes "t_ref \<noteq> 0" "t_ref + s \<noteq> 0"
  shows "sutherland_viscosity t_ref t_ref s v_ref = Inr (PyFloat v_ref)"
  using assms by (simp add: viscosity_real)

lemma powr_three_halves: "0 \<le> x \<Longrightarrow> x powr 1.5 = sqrt x * (x::real)"
proof -
  assume x: "0 \<le> x"
  have "x powr 1.5 = x powr (1/2 + 1)" by simp
  also have "\<dots> = x powr (1/2) * x powr 1" by (rule powr_add)
  also have "\<dots> = sqrt x * x" using x by (simp add: powr_half_sqrt)
  finally show ?thesis .
qed



lemma linspace_length: "length (linspace a b n) = n"
  by (simp add: linspace_def Let_def)

lemma linspace_nth:
  assumes n: "2 \<le> n" and i: "i < n"
  shows "linspace a b n ! i = a + real i * ((b - a) / real (n - 1))"
proof -
  have dv: "real (n - 1) = real n - 1" "real n - 1 \<noteq> 0"
    using n by (simp_all add: of_nat_diff)
  show ?thesis
  proof (cases "i = n - 1")
    case True
    have "a + (real n - 1) * ((b - a) / (real n - 1)) = b" using dv(2) by simp
    moreover have "linspace a b n ! (n - 1) = b"
      using n by (simp add: linspace_def Let_def)
    ultimately show ?thesis using True dv(1) by simp
  next
    case False
    have "linspace a b n ! i =
        (if (b - a) / (real n - 1) = 0 then real i / (real n - 1) * (b - a) + a
         else real i * ((b - a) / (real n - 1)) + a)"
      using n i False by (simp add: linspace_def Let_def)
    then show ?thesis using dv by auto
  qed
qed

lemma calculate_temps:
  assumes "calculate sys u x = Inr r"
  shows "temps r = linspace (base_temp r) (T r) 100 \<and> length (mu r) = length (temps r)"
  using assms
  by (auto simp add: calculate_def plot_data_def Let_def split: if_splits sum.splits)

lemma calculate_usc_reference:
  "calculate ''USC'' ''R'' 518.67 =
     Inr (plot_data 518.67 518.67 (PyFloat V_REF_USC) ''R'' (T_REF_USC, S_USC, V_REF_USC))"
proof -
  have v: "sutherland_viscosity 518.67 T_REF_USC S_USC V_REF_USC = Inr (PyFloat V_REF_USC)"
    using viscosity_self[of T_REF_USC S_USC V_REF_USC] by (simp add: T_REF_USC_def S_USC_def)
  show ?thesis using v by (simp add: calculate_def to_rankine_def)
qed

text \<open>
  The SI calculation at 15 degrees Celsius: the quotient \<open>288.15 / 323\<close> is \<open>5763 / 6460\<close>,
  and its square root lies between 0.944513 and 0.944514.
\<close>

lemma sqrt_quotient_bounds:
  "0.944513 < sqrt (5763 / 6460 :: real)" "sqrt (5763 / 6460 :: real) < 0.944514"
proof -
  show "0.944513 < sqrt (5763 / 6460 :: real)"
    by (rule real_less_rsqrt) (simp add: power2_eq_square)
  show "sqrt (5763 / 6460 :: real) < 0.944514"
    by (rule real_less_lsqrt) (simp_all add: power2_eq_square)
qed

lemma si_15C_value:
  "sutherland_viscosity 288.15 T_REF_SI S_SI V_REF_SI =
     Inr (PyFloat (V_REF_SI * (288.15 / T_REF_SI) powr 1.5 * (T_REF_SI + S_SI) / (288.15 + S_SI)))"
  by (rule viscosity_real) (simp_all add: T_REF_SI_def S_SI_def)

lemma si_15C_bounds:
  "1.57247 / 10 ^ 5
     < V_REF_SI * (288.15 / T_REF_SI) powr 1.5 * (T_REF_SI + S_SI) / (288.15 + S_SI)"
  "V_REF_SI * (288.15 / T_REF_SI) powr 1.5 * (T_REF_SI + S_SI) / (288.15 + S_SI)
     < 1.57248 / 10 ^ 5"
proof -
  have q: "(288.15 / T_REF_SI :: real) = 5763 / 6460" by (simp add: T_REF_SI_def)
  have p: "(5763 / 6460 :: real) powr 1.5 = sqrt (5763 / 6460) * (5763 / 6460)"
    by (rule powr_three_halves) simp
  define r where "r = sqrt (5763 / 6460 :: real)"
  have r: "0.944513 < r" "r < 0.944514" using sqrt_quotient_bounds by (simp_all add: r_def)
  have e: "V_REF_SI * (288.15 / T_REF_SI) powr 1.5 * (T_REF_SI + S_SI) / (288.15 + S_SI)
         = r * (1.716 / 10 ^ 5 * (5763 / 6460) * 433 / 398.15)"
    unfolding q p r_def[symmetric] by (simp add: V_REF_SI_def T_REF_SI_def S_SI_def)
  have c: "(0::real) < 1.716 / 10 ^ 5 * (5763 / 6460) * 433 / 398.15" by simp
  have "0.944513 * (1.716 / 10 ^ 5 * (5763 / 6460) * 433 / 398.15)
      < r * (1.716 / 10 ^ 5 * (5763 / 6460) * 433 / 398.15)"
    using r(1) c by (rule mult_strict_right_mono)
  moreover have "(1.57247 / 10 ^ 5 :: real)
      < 0.944513 * (1.716 / 10 ^ 5 * (5763 / 6460) * 433 / 398.15)"
    by simp
  ultimately show "1.57247 / 10 ^ 5
      < V_REF_SI * (288.15 / T_REF_SI) powr 1.5 * (T_REF_SI + S_SI) / (288.15 + S_SI)"
    unfolding e by (rule less_trans[rotated])
  have "r * (1.716 / 10 ^ 5 * (5763 / 6460) * 433 / 398.15)
      < 0.944514 * (1.716 / 10 ^ 5 * (5763 / 6460) * 433 / 398.15)"
    using r(2) c by (rule mult_strict_right_mono)
  moreover have "0.944514 * (1.716 / 10 ^ 5 * (5763 / 6460) * 433 / 398.15)
      < (1.57248 / 10 ^ 5 :: real)"
    by simp
  ultimately show "V_REF_SI * (288.15 / T_REF_SI) powr 1.5 * (T_REF_SI + S_SI) / (288.15 + S_SI)
      < 1.57248 / 10 ^ 5"
    unfolding e by (rule less_trans)
qed

lemma calculate_si_15C:
  "calculate ''SI'' ''C'' 15 =
     Inr (plot_data 288.15 288.15
           (PyFloat (V_REF_SI * (288.15 / T_REF_SI) powr 1.5 * (T_REF_SI + S_SI) / (288.15 + S_SI)))
           ''K'' (T_REF_SI, S_SI, V_REF_SI))"
proof -
  have k: "to_kelvin 15 ''C'' = Inr 288.15" by (simp add: to_kelvin_def)
  show ?thesis using si_15C_value by (simp add: calculate_def k)
qed

lemma calculate_usc_15C:
  "calculate ''USC'' ''C'' 15 =
     Inr (plot_data 518.67 518.67 (PyFloat V_REF_USC) ''R'' (T_REF_USC, S_USC, V_REF_USC))"
proof -
  have k: "to_rankine 15 ''C'' = Inr 518.67" by (simp add: to_rankine_def)
  have v: "sutherland_viscosity 518.67 T_REF_USC S_USC V_REF_USC = Inr (PyFloat V_REF_USC)"
    using viscosity_self[of T_REF_USC S_USC V_REF_USC] by (simp add: T_REF_USC_def S_USC_def)
  show ?thesis using v by (simp add: calculate_def k)
qed

subsection \<open>Conversions\<close>

text \<open>
  C2: for every real value, \<open>to_kelvin\<close> maps unit C to \<open>value + 273.15\<close>, unit F to
  \<open>(value - 32) * 5/9 + 273.15\<close>, unit K to the value unchanged and unit R to \<open>value * 5/9\<close>.
\<close>

theorem to_kelvin_table:
  "to_kelvin x ''C'' = Inr (x + 273.15) \<and>
   to_kelvin x ''F'' = Inr ((x - 32) * 5 / 9 + 273.15) \<and>
   to_kelvin x ''K'' = Inr x \<and>
   to_kelvin x ''R'' = Inr (x * 5 / 9)"
  by (simp add: to_kelvin_def)

text \<open>
  C3: for every real value, \<open>to_rankine\<close> maps unit C to \<open>value * 9/5 + 491.67\<close>, unit F to
  \<open>value + 459.67\<close>, unit K to \<open>value * 9/5\<close> and unit R to the value unchanged.
\<close>

theorem to_rankine_table:
  "to_rankine x ''C'' = Inr (x * 9 / 5 + 491.67) \<and>
   to_rankine x ''F'' = Inr (x + 459.67) \<and>
   to_rankine x ''K'' = Inr (x * 9 / 5) \<and>
   to_rankine x ''R'' = Inr x"
  by (simp add: to_rankine_def)

text \<open>
  C4: each converter fails exactly when the unit symbol is none of C, F, K, R. The failure is
  the \<^verbatim>\<open>ValueError\<close> carrying the offending symbol, no value is returned in its place, and
  a calculation started with such a symbol ends with the same error.
\<close>

theorem invalid_unit_raises:
  "((\<exists>e. to_kelvin x u = Inl e) \<longleftrightarrow> u \<notin> {''C'', ''F'', ''K'', ''R''}) \<and>
   ((\<exists>e. to_rankine x u = Inl e) \<longleftrightarrow> u \<notin> {''C'', ''F'', ''K'', ''R''}) \<and>
   (u \<notin> {''C'', ''F'', ''K'', ''R''} \<longrightarrow>
      to_kelvin x u = Inl (ValueError (''Unsupported unit: '' @ u)) \<and>
      to_rankine x u = Inl (ValueError (''Unsupported unit: '' @ u)) \<and>
      calculate sys u x = Inl (ValueError (''Unsupported unit: '' @ u)))"
  by (simp add: to_kelvin_def to_rankine_def calculate_def)

theorem invalid_unit_raises_witness:
  "''X'' \<notin> {''C'', ''F'', ''K'', ''R''} \<and>
   to_kelvin 0 ''X'' = Inl (ValueError ''Unsupported unit: X'') \<and>
   to_rankine 0 ''X'' = Inl (ValueError ''Unsupported unit: X'') \<and>
   calculate ''SI'' ''X'' 0 = Inl (ValueError ''Unsupported unit: X'')"
  using invalid_unit_raises[of 0 "''X''" "''SI''"] by simp

text \<open>
  C10: converting a Kelvin value to Rankine and back, or a Rankine value to Kelvin and back,
  returns the value one started from.
\<close>

theorem kelvin_rankine_round_trip:
  "(case to_rankine x ''K'' of Inl e \<Rightarrow> Inl e | Inr y \<Rightarrow> to_kelvin y ''R'') = Inr x \<and>
   (case to_kelvin x ''R'' of Inl e \<Rightarrow> Inl e | Inr y \<Rightarrow> to_rankine y ''K'') = Inr x"
  by (simp add: to_kelvin_def to_rankine_def)

subsection \<open>The viscosity formula\<close>

text \<open>
  C1: when \<open>temp + s\<close> is nonzero and the quotient \<open>temp / t_ref\<close> exists and is nonnegative,
  the viscosity function returns the float
  \<open>v_ref * (temp / t_ref) ^ 1.5 * (t_ref + s) / (temp + s)\<close>.
\<close>

theorem sutherland_viscosity_formula:
  assumes "temp + s \<noteq> 0" and "float_div temp t_ref = Inr q" and "0 \<le> q"
  shows "sutherland_viscosity temp t_ref s v_ref =
     Inr (PyFloat (v_ref * (temp / t_ref) powr 1.5 * (t_ref + s) / (temp + s)))"
  using assms by (auto simp add: float_div_def viscosity_real split: if_splits)

theorem sutherland_viscosity_formula_witness:
  "(4::real) + 1 \<noteq> 0 \<and> float_div 4 1 = Inr 4 \<and> (0::real) \<le> 4 \<and>
   sutherland_viscosity 4 1 1 1 = Inr (PyFloat (16 / 5))"
proof -
  have "(4::real) powr 1.5 = 8"
  proof -
    have "(4::real) powr 1.5 = (2 powr 2) powr 1.5" by simp
    also have "\<dots> = 2 powr 3" by (simp only: powr_powr) simp
    finally show ?thesis by simp
  qed
  then show ?thesis
    using sutherland_viscosity_formula[of 4 1 1 4 1] by (simp add: float_div_def)
qed




text \<open>
  C9, amended: for a nonzero reference temperature and a nonzero Sutherland constant, the
  viscosity at \<open>temp = 0\<close> is 0.
\<close>

theorem viscosity_at_zero:
  assumes "t_ref \<noteq> 0" and "s \<noteq> 0"
  shows "sutherland_viscosity 0 t_ref s v_ref = Inr (PyFloat 0)"
  using assms by (simp add: viscosity_real)

theorem viscosity_at_zero_witness:
  "(1::real) \<noteq> 0 \<and> sutherland_viscosity 0 1 1 1 = Inr (PyFloat 0)"
  using viscosity_at_zero[of 1 1 1] by simp

text \<open>
  As C9 is worded, only \<open>s\<close> has to be nonzero. With the reference temperature zero the
  quotient \<open>0 / 0\<close> raises.
\<close>

theorem viscosity_at_zero_zero_reference:
  "(2::real) \<noteq> 0 \<and> sutherland_viscosity 0 0 2 3 = Inl ZeroDivisionError \<and>
   sutherland_viscosity 0 0 2 3 \<noteq> Inr (PyFloat 0)"
  by (simp add: viscosity_zero_t_ref)




subsection \<open>End-to-end calculations\<close>

text \<open>
  C5: the SI calculation for 15 degrees Celsius converts to 288.15 K, and the viscosity it
  returns is Sutherland's formula with the SI constants \<open>(323.0, 110.0, 1.716e-5)\<close>. That
  value lies between 1.57247e-5 and 1.57248e-5, so it is not the 1.7894e-5 expected of air at
  this temperature. The USC calculation for the same 15 degrees Celsius converts to
  518.67 R, its own reference temperature, and returns its reference viscosity 3.737e-7
  slug/(ft s), which is 1.7893e-5 kg/(m s): the two unit systems disagree on the same air,
  and the SI reference temperature 323.0 is the constant that does not fit.
\<close>

theorem si_15C_calculation:
  "(\<exists>r v. calculate ''SI'' ''C'' 15 = Inr r \<and> T r = 288.15 \<and> viscosity r = PyFloat v \<and>
          v = V_REF_SI * (288.15 / T_REF_SI) powr 1.5 * (T_REF_SI + S_SI) / (288.15 + S_SI) \<and>
          1.57247 / 10 ^ 5 < v \<and> v < 1.57248 / 10 ^ 5) \<and>
   (\<exists>r. calculate ''USC'' ''C'' 15 = Inr r \<and> T r = 518.67 \<and>
        viscosity r = PyFloat (3.737 / 10 ^ 7))"
proof
  define w where
    "w = V_REF_SI * (288.15 / T_REF_SI) powr 1.5 * (T_REF_SI + S_SI) / (288.15 + S_SI)"
  have b: "1.57247 / 10 ^ 5 < w" "w < 1.57248 / 10 ^ 5"
    unfolding w_def by (rule si_15C_bounds)+
  show "\<exists>r v. calculate ''SI'' ''C'' 15 = Inr r \<and> T r = 288.15 \<and> viscosity r = PyFloat v \<and>
          v = V_REF_SI * (288.15 / T_REF_SI) powr 1.5 * (T_REF_SI + S_SI) / (288.15 + S_SI) \<and>
          1.57247 / 10 ^ 5 < v \<and> v < 1.57248 / 10 ^ 5"
  proof (intro exI conjI)
    show "calculate ''SI'' ''C'' 15 =
        Inr (plot_data 288.15 288.15 (PyFloat w) ''K'' (T_REF_SI, S_SI, V_REF_SI))"
      unfolding w_def by (rule calculate_si_15C)
    show "T (plot_data 288.15 288.15 (PyFloat w) ''K'' (T_REF_SI, S_SI, V_REF_SI)) = 288.15"
      by (simp add: plot_data_def Let_def)
    show "viscosity (plot_data 288.15 288.15 (PyFloat w) ''K'' (T_REF_SI, S_SI, V_REF_SI))
        = PyFloat w"
      by (simp add: plot_data_def Let_def)
    show "w = V_REF_SI * (288.15 / T_REF_SI) powr 1.5 * (T_REF_SI + S_SI) / (288.15 + S_SI)"
      by (rule w_def)
    show "1.57247 / 10 ^ 5 < w" by (rule b(1))
    show "w < 1.57248 / 10 ^ 5" by (rule b(2))
  qed
  show "\<exists>r. calculate ''USC'' ''C'' 15 = Inr r \<and> T r = 518.67 \<and>
        viscosity r = PyFloat (3.737 / 10 ^ 7)"
    unfolding calculate_usc_15C by (simp add: plot_data_def Let_def V_REF_USC_def)
qed

subsection \<open>The sampled curve\<close>

text \<open>
  C8: for all reals \<open>start\<close> and \<open>stop\<close> the sampler returns exactly 100 temperatures, the
  \<open>i\<close>-th being \<open>start + i * (stop - start) / 99\<close>: consecutive ones differ by the same step,
  the first is \<open>start\<close> and the last is \<open>stop\<close>, whichever of the two is larger, and all
  coincide when \<open>start = stop\<close>. These are the temperatures of every calculation, sampled from
  its sea-level reference to its converted temperature.
\<close>

theorem curve_sampler_points:
  "length (linspace start stop 100) = 100 \<and>
   (\<forall>i<100. linspace start stop 100 ! i = start + real i * ((stop - start) / 99)) \<and>
   (\<forall>i<99. linspace start stop 100 ! Suc i - linspace start stop 100 ! i = (stop - start) / 99) \<and>
   linspace start stop 100 ! 0 = start \<and>
   linspace start stop 100 ! 99 = stop \<and>
   (start = stop \<longrightarrow> (\<forall>i<100. linspace start stop 100 ! i = start)) \<and>
   (calculate sys u x = Inr r \<longrightarrow> temps r = linspace (base_temp r) (T r) 100)"
proof -
  define d where "d = (stop - start) / 99"
  have nth: "linspace start stop 100 ! i = start + real i * d" if "i < 100" for i
    unfolding d_def using linspace_nth[of 100 i start stop] that by simp
  have step: "linspace start stop 100 ! Suc i - linspace start stop 100 ! i = d" if "i < 99" for i
  proof -
    have a: "linspace start stop 100 ! Suc i = start + real (Suc i) * d"
      using that by (intro nth) simp
    have b: "linspace start stop 100 ! i = start + real i * d"
      using that by (intro nth) simp
    show ?thesis unfolding a b by (simp add: algebra_simps)
  qed
  have first: "linspace start stop 100 ! 0 = start" using nth[of 0] by simp
  have last: "linspace start stop 100 ! 99 = stop" by (simp add: linspace_def Let_def)
  have flat: "\<forall>i<100. linspace start stop 100 ! i = start" if "start = stop"
    using nth that by (simp add: d_def)
  show ?thesis
    using nth step first last flat calculate_temps[of sys u x r]
    by (simp add: linspace_length d_def)
qed

theorem curve_sampler_points_witness:
  "linspace 0 99 100 ! 3 = 3 \<and> linspace 99 0 100 ! 3 = 96 \<and>
   linspace 0 99 100 ! Suc 3 - linspace 0 99 100 ! 3 = 1 \<and>
   linspace 5 5 100 ! 7 = 5 \<and>
   calculate ''USC'' ''R'' 518.67 =
     Inr (plot_data 518.67 518.67 (PyFloat V_REF_USC) ''R'' (T_REF_USC, S_USC, V_REF_USC)) \<and>
   temps (plot_data 518.67 518.67 (PyFloat V_REF_USC) ''R'' (T_REF_USC, S_USC, V_REF_USC)) =
     linspace 518.67 518.67 100"
proof -
  have 1: "linspace 0 99 100 ! 3 = 3 \<and> linspace 0 99 100 ! Suc 3 - linspace 0 99 100 ! 3 = 1"
    using curve_sampler_points[of 0 99 "''USC''" "''R''" "518.67"
             "plot_data 518.67 518.67 (PyFloat V_REF_USC) ''R'' (T_REF_USC, S_USC, V_REF_USC)"]
    by simp
  have 2: "linspace 99 0 100 ! 3 = 96"
    using curve_sampler_points[of 99 0 "''USC''" "''R''" "518.67"
             "plot_data 518.67 518.67 (PyFloat V_REF_USC) ''R'' (T_REF_USC, S_USC, V_REF_USC)"]
    by simp
  have 3: "linspace 5 5 100 ! 7 = 5 \<and>
     temps (plot_data 518.67 518.67 (PyFloat V_REF_USC) ''R'' (T_REF_USC, S_USC, V_REF_USC)) =
     linspace 518.67 518.67 100"
    using calculate_usc_reference
      curve_sampler_points[of 5 5 "''USC''" "''R''" "518.67"
             "plot_data 518.67 518.67 (PyFloat V_REF_USC) ''R'' (T_REF_USC, S_USC, V_REF_USC)"]
    by (simp add: plot_data_def Let_def)
  show ?thesis using 1 2 3 calculate_usc_reference by simp
qed

end
